theory Spec2Isabelle
  imports Main
begin

section \<open>The subscription orchestration service of the Stripe-subscription plugin\<close>

text \<open>
  A shallow embedding of \<^verbatim>\<open>StripeSubscriptionService\<close>
  (\<^verbatim>\<open>api-v2/stripe-subscription.service.ts\<close>). The service is glue between the
  commerce framework and the billing provider, so the model is a state-passing one:
  \<^item> the persisted entities the service reads and writes (orders with their lines, the
    payment methods of each channel) are fields of a \<open>world\<close> record;
  \<^item> every call the service makes to a collaborator that changes something or leaves
    the process (provider requests, job-queue adds, history entries, order-service
    mutations, repository updates) is appended, in program order, to the \<open>effects\<close>
    trace of the world;
  \<^item> what a collaborator answers is a field of the \<open>services\<close> record, a function of
    the trace so far and of the arguments of the call, so that an answer may depend on
    everything that happened before;
  \<^item> a thrown exception is the \<open>Inl\<close> of a sum; an \<^verbatim>\<open>async\<close> method returns the
    result together with the world it leaves behind, also when it throws.
  Calls of \<^verbatim>\<open>Logger\<close> and of \<^verbatim>\<open>entityHydrator.hydrate\<close> change nothing the service
  looks at again (the relations they load are fields of the records here) and are left
  out. The history service is taken to accept every entry. A call the service does not
  await the outcome of (\<^verbatim>\<open>jobQueue.add\<close>, \<^verbatim>\<open>customerService.update\<close>) is the effect of
  having called.
\<close>

subsection \<open>Entities\<close>

text \<open>
  The entities are the framework's; the records have the fields the service reads or
  writes. An \<open>ID\<close> is a text (the framework allows numbers as well; the service only
  compares ids and prints them). An order line has the two custom fields of the plugin,
  \<^verbatim>\<open>subscriptionHash\<close> and \<^verbatim>\<open>subscriptionIds\<close>, each absent until written, and
  \<open>subscriptionSchedule\<close> tells whether the custom field of that name on the line's
  product variant is set.
\<close>

type_synonym ID = string

record config_arg =
  argName :: string
  argValue :: string

record payment_method =
  pmCode :: string
  enabled :: bool
  handlerCode :: string
  handlerArgs :: "config_arg list"

record order_line =
  lineId :: ID
  subscriptionHash :: "string option"
  subscriptionIds :: "string list option"
  subscriptionSchedule :: bool

record customer_entity =
  customerId :: ID
  emailAddress :: string

record surcharge_input =
  description :: string
  listPrice :: int
  listPriceIncludesTax :: bool

record order =
  orderId :: ID
  code :: string
  state :: string
  totalWithTax :: int
  currencyCode :: string
  lines :: "order_line list"
  customer :: "customer_entity option"
  shippingLines :: "ID list"
  surcharges :: "surcharge_input list"

record request_context =
  channelToken :: string
  activeOrderId :: "ID option"

datatype exn = UserInputError string | Error string | EntityNotFoundError ID

text \<open>
  What \<^verbatim>\<open>logHistoryEntry\<close> receives as its \<^verbatim>\<open>error\<close> argument: a caught exception
  object, or a plain text.
\<close>

datatype thrown = Thrown exn | Text string

subsection \<open>Jobs, history entries and the trace of effects\<close>

datatype job_data =
  CreateSubscriptionsJob request_context string string string
| CancelSubscriptionsJob request_context ID

record history_entry =
  entryOrderId :: ID
  message :: string
  valid :: bool
  error :: "thrown option"
  entrySubscriptionId :: "string option"

datatype future_usage = off_session | on_session

record intent_params =
  intentCustomer :: string
  setup_future_usage :: future_usage
  amount :: int
  currency :: string
  metaOrderCode :: string
  metaChannelToken :: string
  metaAmount :: int

record payment_input =
  paymentMethodInput :: string
  setupIntentId :: string
  paymentAmount :: string

datatype effect =
  HistoryEntry history_entry
| SubscriptionsUpdate string
| JobAdd job_data "nat option"
| TransitionToState ID string
| AddPaymentToOrder ID payment_input
| AddSurchargeToOrder ID surcharge_input
| GetOrCreateCustomer customer_entity
| CustomerUpdate ID string
| PaymentIntentsCreate intent_params
| OrderLineUpdate ID string

record world =
  orders :: "order list"
  paymentMethods :: "(string \<times> payment_method) list"
  effects :: "effect list"
  uuidsDrawn :: nat

definition emit :: "effect \<Rightarrow> world \<Rightarrow> world" where
  "emit e w = w\<lparr>effects := effects w @ [e]\<rparr>"

text \<open>The effects a run has added to the trace it started from.\<close>

definition new_effects :: "world \<Rightarrow> world \<Rightarrow> effect list" where
  "new_effects w w' = drop (length (effects w)) (effects w')"

subsection \<open>Provider-context resolution\<close>

record stripe_client =
  clientWebhookSecret :: string
  clientApiKey :: string

record stripe_context =
  paymentMethod :: payment_method
  stripeClient :: stripe_client

text \<open>
  Modelled from the spec: \<^verbatim>\<open>stripeSubscriptionHandler\<close> ("this provider's handler") is
  declared in \<^verbatim>\<open>payment-method/stripe-subscription.handler.ts\<close>, which is not among the
  sources. Its code is taken to be the name the error messages of the service give the
  handler. \<^verbatim>\<open>StripeClient\<close> (\<^verbatim>\<open>stripe.client.ts\<close>) is not among the sources either: a
  client is the pair of credentials it was constructed with.
\<close>

definition stripeSubscriptionHandler_code :: string where
  "stripeSubscriptionHandler_code = ''stripe-subscription''"

text \<open>JavaScript's \<^verbatim>\<open>!s\<close> on a value that is a string or undefined.\<close>

fun falsy :: "string option \<Rightarrow> bool" where
  "falsy None = True"
| "falsy (Some s) = (s = [])"

text \<open>
  \<^verbatim>\<open>paymentMethodService.findAll(ctx, { filter: { enabled: { eq: true } } })\<close>: the enabled
  payment methods of the channel of the request, in stored order.
\<close>

definition findAll_enabled :: "request_context \<Rightarrow> world \<Rightarrow> payment_method list" where
  "findAll_enabled ctx w =
     filter enabled (map snd (filter (\<lambda>p. fst p = channelToken ctx) (paymentMethods w)))"

definition arg_value :: "string \<Rightarrow> payment_method \<Rightarrow> string option" where
  "arg_value n pm = map_option argValue (find (\<lambda>a. argName a = n) (handlerArgs pm))"

definition getStripeContext :: "request_context \<Rightarrow> world \<Rightarrow> exn + stripe_context" where
  "getStripeContext ctx w =
     (let stripePaymentMethods =
            filter (\<lambda>pm. handlerCode pm = stripeSubscriptionHandler_code) (findAll_enabled ctx w)
      in if length stripePaymentMethods > 1 then
           Inl (UserInputError
             (''Multiple payment methods found with handler '' @ [CHR 0x27] @ ''stripe-subscription''
                @ [CHR 0x27] @ '', there should only be 1 per channel!''))
         else case stripePaymentMethods of
           [] \<Rightarrow> Inl (UserInputError
             (''No enabled payment method found with handler '' @ [CHR 0x27] @ ''stripe-subscription''
                @ [CHR 0x27]))
         | pm # _ \<Rightarrow>
             (let apiKey = arg_value ''apiKey'' pm;
                  webhookSecret = arg_value ''webhookSecret'' pm
              in if falsy apiKey \<or> falsy webhookSecret then
                   Inl (Error (''Payment method '' @ pmCode pm
                                 @ '' has no api key or webhook secret configured''))
                 else Inr \<lparr>paymentMethod = pm,
                           stripeClient = \<lparr>clientWebhookSecret = the webhookSecret,
                                           clientApiKey = the apiKey\<rparr>\<rparr>))"

text \<open>
  The payment methods the claim counts: those of the channel that are enabled and use
  this provider's handler.
\<close>

definition stripe_methods :: "request_context \<Rightarrow> world \<Rightarrow> payment_method list" where
  "stripe_methods ctx w =
     map snd (filter (\<lambda>p. fst p = channelToken ctx \<and> enabled (snd p)
                            \<and> handlerCode (snd p) = ''stripe-subscription'') (paymentMethods w))"

subsection \<open>The collaborators\<close>

record transition_error =
  fromState :: string
  toState :: string
  transitionMessage :: string

record error_result =
  errorCode :: string
  errorMessage :: string

record payment_method_quote =
  quoteCode :: string
  isEligible :: bool

record created_intent =
  createdIntentId :: string
  client_secret :: "string option"

text \<open>
  The answers of the collaborators. Those of the provider and of the order service take
  the trace so far. \<open>randomUUID\<close> takes the number of identifiers drawn before.
  \<open>subscriptionCreation\<close> stands for the body of the \<^verbatim>\<open>try\<close> block of
  \<^verbatim>\<open>createSubscriptions\<close>, which the source leaves unwritten (\<^verbatim>\<open>FIXME do stuff here\<close>);
  the source as it is has \<open>no_subscriptionCreation\<close> there.
\<close>

record services =
  isSubscription :: "request_context \<Rightarrow> order_line \<Rightarrow> bool"
  randomUUID :: "nat \<Rightarrow> string"
  subscriptionsUpdate :: "effect list \<Rightarrow> string \<Rightarrow> exn option"
  transitionToState :: "effect list \<Rightarrow> ID \<Rightarrow> string \<Rightarrow> transition_error option"
  addPaymentToOrder :: "effect list \<Rightarrow> ID \<Rightarrow> payment_input \<Rightarrow> error_result option"
  getEligiblePaymentMethods :: "effect list \<Rightarrow> ID \<Rightarrow> payment_method_quote list"
  getOrCreateCustomer :: "effect list \<Rightarrow> customer_entity \<Rightarrow> exn + string"
  paymentIntentsCreate :: "effect list \<Rightarrow> intent_params \<Rightarrow> exn + created_intent"
  subscriptionCreation ::
    "request_context \<Rightarrow> order \<Rightarrow> string \<Rightarrow> string \<Rightarrow> world \<Rightarrow> (exn + unit) \<times> world"

definition no_subscriptionCreation ::
  "request_context \<Rightarrow> order \<Rightarrow> string \<Rightarrow> string \<Rightarrow> world \<Rightarrow> (exn + unit) \<times> world" where
  "no_subscriptionCreation ctx ord cid pmid w = (Inr (), w)"

subsection \<open>Audit logging\<close>

text \<open>JavaScript's truth value of the \<^verbatim>\<open>error\<close> argument: an object is true, a text is true unless empty.\<close>

fun truthy :: "thrown option \<Rightarrow> bool" where
  "truthy None = False"
| "truthy (Some (Thrown e)) = True"
| "truthy (Some (Text s)) = (s \<noteq> [])"

text \<open>
  \<^verbatim>\<open>logHistoryEntry(ctx, orderId, message, error, pricing, subscriptionId)\<close>. No caller in
  the service passes a pricing, so the entry has none.
\<close>

definition logHistoryEntry ::
  "ID \<Rightarrow> string \<Rightarrow> thrown option \<Rightarrow> string option \<Rightarrow> world \<Rightarrow> world" where
  "logHistoryEntry oid msg err sid w =
     emit (HistoryEntry \<lparr>entryOrderId = oid, message = msg, valid = (\<not> truthy err),
                         error = (if truthy err then err else None),
                         entrySubscriptionId = sid\<rparr>) w"

subsection \<open>Cancelling the subscriptions of an order line\<close>

text \<open>\<^verbatim>\<open>orderService.findOneByOrderLineId\<close>: the order that owns a line of this id.\<close>

definition findOneByOrderLineId :: "world \<Rightarrow> ID \<Rightarrow> order option" where
  "findOneByOrderLineId w lid = find (\<lambda>ord. list_ex (\<lambda>l. lineId l = lid) (lines ord)) (orders w)"

text \<open>
  The \<^verbatim>\<open>for\<close> loop over the stored identifiers: one provider request
  (\<^verbatim>\<open>cancel_at_period_end\<close>) each, then a history entry, in the \<^verbatim>\<open>try\<close> when the request
  succeeded and in the \<^verbatim>\<open>catch\<close> when it threw.
\<close>

fun cancel_each :: "services \<Rightarrow> ID \<Rightarrow> string list \<Rightarrow> world \<Rightarrow> world" where
  "cancel_each sv oid [] w = w"
| "cancel_each sv oid (subscriptionId # rest) w =
     (let w1 = emit (SubscriptionsUpdate subscriptionId) w
      in case subscriptionsUpdate sv (effects w) subscriptionId of
           None \<Rightarrow>
             cancel_each sv oid rest
               (logHistoryEntry oid (''Cancelled subscription '' @ subscriptionId) None
                  (Some subscriptionId) w1)
         | Some e \<Rightarrow>
             cancel_each sv oid rest
               (logHistoryEntry oid (''Failed to cancel '' @ subscriptionId) (Some (Thrown e))
                  (Some subscriptionId) w1))"

text \<open>JavaScript's \<^verbatim>\<open>!ids?.length\<close>: the list is absent or empty.\<close>

fun no_length :: "'a list option \<Rightarrow> bool" where
  "no_length None = True"
| "no_length (Some xs) = (xs = [])"

definition cancelSubscriptionForOrderLine ::
  "services \<Rightarrow> request_context \<Rightarrow> ID \<Rightarrow> world \<Rightarrow> (exn + unit) \<times> world" where
  "cancelSubscriptionForOrderLine sv ctx orderLineId w =
     (case findOneByOrderLineId w orderLineId of
        None \<Rightarrow> (Inl (Error (''Order for OrderLine '' @ orderLineId @ '' not found'')), w)
      | Some ord \<Rightarrow>
          (case find (\<lambda>l. lineId l = orderLineId) (lines ord) of
             None \<Rightarrow> (Inr (), w)
           | Some line \<Rightarrow>
               if no_length (subscriptionIds line) then (Inr (), w)
               else (case getStripeContext ctx w of
                       Inl e \<Rightarrow> (Inl e, w)
                     | Inr sc \<Rightarrow>
                         (Inr (), cancel_each sv (orderId ord) (the (subscriptionIds line)) w))))"

subsection \<open>The payment-intent-succeeded webhook\<close>

text \<open>The fields of the webhook's payment intent that the handler reads.\<close>

record stripe_payment_intent =
  intentId :: string
  webhookCustomer :: "string option"
  payment_method :: string
  metadataAmount :: string

text \<open>
  \<^verbatim>\<open>orderService.transitionToState\<close>: the request is an effect; when the order service
  does not answer with an \<^verbatim>\<open>OrderStateTransitionError\<close>, the stored order is in the new
  state.
\<close>

definition set_state :: "ID \<Rightarrow> string \<Rightarrow> world \<Rightarrow> world" where
  "set_state oid st w =
     w\<lparr>orders := map (\<lambda>ord. if orderId ord = oid then ord\<lparr>state := st\<rparr> else ord) (orders w)\<rparr>"

definition handlePaymentIntentSucceeded ::
  "services \<Rightarrow> request_context \<Rightarrow> stripe_payment_intent \<Rightarrow> order \<Rightarrow> world
     \<Rightarrow> (exn + unit) \<times> world" where
  "handlePaymentIntentSucceeded sv ctx object ord w =
     (case getStripeContext ctx w of
        Inl e \<Rightarrow> (Inl e, w)
      | Inr sc \<Rightarrow>
          (let paymentMethodCode = pmCode (paymentMethod sc)
           in if falsy (webhookCustomer object) then
                (Inl (Error (''No customer found in webhook data for order '' @ code ord)),
                 logHistoryEntry (orderId ord) []
                   (Some (Text (''No customer ID found in incoming webhook. ''
                                  @ ''Can not create subscriptions for this order.''))) None w)
              else
                (let w1 = emit (JobAdd (CreateSubscriptionsJob ctx (code ord)
                                          (the (webhookCustomer object)) (payment_method object))
                                  (Some 0)) w
                 in case (if state ord \<noteq> ''ArrangingPayment'' then
                            (let w2 = emit (TransitionToState (orderId ord) ''ArrangingPayment'') w1
                             in case transitionToState sv (effects w1) (orderId ord)
                                       ''ArrangingPayment'' of
                                  Some r \<Rightarrow>
                                    (Inl (Error (''Error transitioning order '' @ code ord
                                            @ '' from '' @ fromState r @ '' to '' @ toState r
                                            @ '': '' @ transitionMessage r)), w2)
                                | None \<Rightarrow>
                                    (Inr (), set_state (orderId ord) ''ArrangingPayment'' w2))
                          else (Inr (), w1)) of
                      (Inl e, w2) \<Rightarrow> (Inl e, w2)
                    | (Inr u, w2) \<Rightarrow>
                        (let input = \<lparr>paymentMethodInput = paymentMethodCode,
                                      setupIntentId = intentId object,
                                      paymentAmount = metadataAmount object\<rparr>;
                             w3 = emit (AddPaymentToOrder (orderId ord) input) w2
                         in case addPaymentToOrder sv (effects w2) (orderId ord) input of
                              None \<Rightarrow> (Inr (), w3)
                            | Some r \<Rightarrow>
                                if errorCode r \<noteq> [] then
                                  (Inl (Error (''Error adding payment to order '' @ code ord
                                          @ '': '' @ errorMessage r)), w3)
                                else (Inr (), w3)))))"

fun isTransitionToState :: "effect \<Rightarrow> bool" where
  "isTransitionToState (TransitionToState oid st) = True"
| "isTransitionToState e = False"

fun isAddPaymentToOrder :: "effect \<Rightarrow> bool" where
  "isAddPaymentToOrder (AddPaymentToOrder oid inp) = True"
| "isAddPaymentToOrder e = False"

text \<open>
  The job queue is the framework's. By its contract a job that throws is run again
  while configured retries remain; \<open>runWithRetries\<close> gives the number of times the
  job ran and the last outcome.
\<close>

fun runWithRetries ::
  "nat \<Rightarrow> (world \<Rightarrow> (exn + unit) \<times> world) \<Rightarrow> world \<Rightarrow> nat \<times> (exn + unit) \<times> world" where
  "runWithRetries 0 job w = (1, job w)"
| "runWithRetries (Suc n) job w =
     (case job w of
        (Inl e, w') \<Rightarrow> (case runWithRetries n job w' of (k, r) \<Rightarrow> (Suc k, r))
      | (Inr u, w') \<Rightarrow> (1, Inr u, w'))"

subsection \<open>Creating the payment intent\<close>

datatype StripeSubscriptionIntentType = PaymentIntent | SetupIntent

record StripeSubscriptionIntent =
  clientSecret :: string
  intentType :: StripeSubscriptionIntentType

text \<open>
  \<^verbatim>\<open>activeOrderService.getActiveOrder(ctx, undefined)\<close>: the order the session of the
  request points to, if any; none is created.
\<close>

definition getActiveOrder :: "request_context \<Rightarrow> world \<Rightarrow> order option" where
  "getActiveOrder ctx w =
     (case activeOrderId ctx of
        None \<Rightarrow> None
      | Some oid \<Rightarrow> find (\<lambda>ord. orderId ord = oid) (orders w))"

text \<open>
  \<^verbatim>\<open>orderService.addSurchargeToOrder\<close>: the order service stores the surcharge with the
  order, prices the order again and returns it; an unknown order id is an
  \<^verbatim>\<open>EntityNotFoundError\<close>. The surcharge of the service has a list price that includes
  tax, so the total with tax grows by the list price.
\<close>

definition withSurcharge :: "surcharge_input \<Rightarrow> order \<Rightarrow> order" where
  "withSurcharge s ord =
     ord\<lparr>surcharges := surcharges ord @ [s], totalWithTax := totalWithTax ord + listPrice s\<rparr>"

definition addSurchargeToOrder ::
  "ID \<Rightarrow> surcharge_input \<Rightarrow> world \<Rightarrow> (exn + order) \<times> world" where
  "addSurchargeToOrder oid s w =
     (case find (\<lambda>x. orderId x = oid) (orders w) of
        None \<Rightarrow> (Inl (EntityNotFoundError oid), w)
      | Some x \<Rightarrow>
          (Inr (withSurcharge s x),
           emit (AddSurchargeToOrder oid s)
             (w\<lparr>orders := map (\<lambda>x. if orderId x = oid then withSurcharge s x else x)
                               (orders w)\<rparr>)))"

definition verification_fee :: surcharge_input where
  "verification_fee =
     \<lparr>description = ''Verification fee'', listPrice = 100, listPriceIncludesTax = True\<rparr>"

definition createIntent ::
  "services \<Rightarrow> request_context \<Rightarrow> world \<Rightarrow> (exn + StripeSubscriptionIntent) \<times> world" where
  "createIntent sv ctx w =
     (case getActiveOrder ctx w of
        None \<Rightarrow> (Inl (UserInputError ''No active order for session''), w)
      | Some ord0 \<Rightarrow>
          (case (if totalWithTax ord0 = 0 then
                   addSurchargeToOrder (orderId ord0) verification_fee w
                 else (Inr ord0, w)) of
             (Inl e, w1) \<Rightarrow> (Inl e, w1)
           | (Inr ord, w1) \<Rightarrow>
               if lines ord = [] then
                 (Inl (UserInputError ''Cannot create payment intent for empty order''), w1)
               else (case customer ord of
                 None \<Rightarrow>
                   (Inl (UserInputError
                      ''Cannot create payment intent for order without customer''), w1)
               | Some cust \<Rightarrow>
                   if shippingLines ord = [] then
                     (Inl (UserInputError
                        ''Cannot create payment intent for order without shippingMethod''), w1)
                   else
                     (let eligibleStripeMethodCodes =
                            map quoteCode (filter isEligible
                              (getEligiblePaymentMethods sv (effects w1) (orderId ord)))
                      in case getStripeContext ctx w1 of
                           Inl e \<Rightarrow> (Inl e, w1)
                         | Inr sc \<Rightarrow>
                             if pmCode (paymentMethod sc) \<notin> set eligibleStripeMethodCodes then
                               (Inl (UserInputError
                                  (''No eligible payment method found with code '' @ [CHR 0x27]
                                     @ ''stripe-subscription'' @ [CHR 0x27])), w1)
                             else
                               (let w2 = emit (GetOrCreateCustomer cust) w1
                                in case getOrCreateCustomer sv (effects w1) cust of
                                     Inl e \<Rightarrow> (Inl e, w2)
                                   | Inr stripeCustomerId \<Rightarrow>
                                       (let w3 = emit (CustomerUpdate (customerId cust)
                                                         stripeCustomerId) w2;
                                            hasSubscriptionProducts =
                                              list_ex subscriptionSchedule (lines ord);
                                            params =
                                              \<lparr>intentCustomer = stripeCustomerId,
                                               setup_future_usage =
                                                 (if hasSubscriptionProducts then off_session
                                                  else on_session),
                                               amount = totalWithTax ord,
                                               currency = currencyCode ord,
                                               metaOrderCode = code ord,
                                               metaChannelToken = channelToken ctx,
                                               metaAmount = totalWithTax ord\<rparr>;
                                            w4 = emit (PaymentIntentsCreate params) w3
                                        in case paymentIntentsCreate sv (effects w3) params of
                                             Inl e \<Rightarrow> (Inl e, w4)
                                           | Inr intent \<Rightarrow>
                                               if falsy (client_secret intent) then
                                                 (Inl (Error (''No client_secret found in ''
                                                    @ ''SetupIntent response, something went wrong!'')),
                                                  w4)
                                               else
                                                 (Inr \<lparr>clientSecret = the (client_secret intent),
                                                       intentType = SetupIntent\<rparr>, w4)))))))"

fun isAddSurchargeToOrder :: "effect \<Rightarrow> bool" where
  "isAddSurchargeToOrder (AddSurchargeToOrder oid s) = True"
| "isAddSurchargeToOrder e = False"

subsection \<open>The event subscriptions of \<^verbatim>\<open>onModuleInit\<close>\<close>

datatype order_line_event_type = created | updated | deleted | cancelled

record order_line_event =
  lineEventCtx :: request_context
  lineEventType :: order_line_event_type
  orderLine :: order_line

text \<open>
  The repository update \<^verbatim>\<open>update({ id }, { customFields: { subscriptionHash } })\<close>:
  the hash column of the stored lines of this id is set, nothing else.
\<close>

definition updateSubscriptionHash :: "ID \<Rightarrow> string \<Rightarrow> world \<Rightarrow> world" where
  "updateSubscriptionHash lid h w =
     emit (OrderLineUpdate lid h)
       (w\<lparr>orders :=
            map (\<lambda>ord. ord\<lparr>lines :=
                   map (\<lambda>l. if lineId l = lid then l\<lparr>subscriptionHash := Some h\<rparr> else l)
                       (lines ord)\<rparr>)
                (orders w)\<rparr>)"

definition onOrderLineEvent :: "services \<Rightarrow> order_line_event \<Rightarrow> world \<Rightarrow> world" where
  "onOrderLineEvent sv event w =
     (if lineEventType event = created
         \<and> isSubscription sv (lineEventCtx event) (orderLine event) then
        updateSubscriptionHash (lineId (orderLine event)) (randomUUID sv (uuidsDrawn w))
          (w\<lparr>uuidsDrawn := Suc (uuidsDrawn w)\<rparr>)
      else w)"

text \<open>The stored lines, and the correlation hashes stored on them.\<close>

definition stored_lines :: "world \<Rightarrow> order_line list" where
  "stored_lines w = concat (map lines (orders w))"

definition stored_hashes :: "world \<Rightarrow> string list" where
  "stored_hashes w = List.map_filter subscriptionHash (stored_lines w)"

text \<open>
  Every stored hash is one of the identifiers drawn so far. The event handler is the
  only writer of the hash in the service, and it keeps this.
\<close>

definition hashes_drawn :: "services \<Rightarrow> world \<Rightarrow> bool" where
  "hashes_drawn sv w =
     list_all (\<lambda>h. list_ex (\<lambda>k. randomUUID sv k = h) [0..<uuidsDrawn w]) (stored_hashes w)"

datatype StockMovementType = ADJUSTMENT | ALLOCATION | RELEASE | SALE | CANCELLATION | RETURN

record stock_movement =
  movementId :: ID
  movementOrderLine :: order_line

record stock_movement_event =
  movementEventCtx :: request_context
  movementEventType :: StockMovementType
  stockMovements :: "stock_movement list"

text \<open>JavaScript's truth value of a value that is an array or undefined: every array is true.\<close>

fun truthy_array :: "'a list option \<Rightarrow> bool" where
  "truthy_array None = False"
| "truthy_array (Some xs) = True"

text \<open>
  The subscriber filters the movements of the event and maps the movements that are
  left to job-queue adds; \<^verbatim>\<open>line.id\<close> in the source is the \<^verbatim>\<open>id\<close> of an element of
  the filtered \<^verbatim>\<open>stockMovements\<close>.
\<close>

definition onStockMovementEvent :: "stock_movement_event \<Rightarrow> world \<Rightarrow> world" where
  "onStockMovementEvent event w =
     (if movementEventType event = RELEASE \<or> movementEventType event = CANCELLATION then
        (let orderLinesWithSubscriptions =
               filter (\<lambda>m. truthy_array (subscriptionIds (movementOrderLine m)))
                      (stockMovements event)
         in fold (\<lambda>line. emit (JobAdd (CancelSubscriptionsJob (movementEventCtx event)
                                          (movementId line)) None))
                 orderLinesWithSubscriptions w)
      else w)"

text \<open>The movements of an event whose order line has stored subscription identifiers.\<close>

definition movements_with_subscriptions :: "stock_movement_event \<Rightarrow> stock_movement list" where
  "movements_with_subscriptions event =
     filter (\<lambda>m. \<not> no_length (subscriptionIds (movementOrderLine m))) (stockMovements event)"

subsection \<open>The job handlers\<close>

definition findOneByCode :: "world \<Rightarrow> string \<Rightarrow> order option" where
  "findOneByCode w c = find (\<lambda>ord. code ord = c) (orders w)"

definition createSubscriptions ::
  "services \<Rightarrow> request_context \<Rightarrow> string \<Rightarrow> string \<Rightarrow> string \<Rightarrow> world
     \<Rightarrow> (exn + unit) \<times> world" where
  "createSubscriptions sv ctx orderCode stripeCustomerId stripePaymentMethodId w =
     (case findOneByCode w orderCode of
        None \<Rightarrow> (Inl (Error (''Cannot find order with code '' @ orderCode)), w)
      | Some ord \<Rightarrow>
          (case subscriptionCreation sv ctx ord stripeCustomerId stripePaymentMethodId w of
             (Inr u, w1) \<Rightarrow> (Inr u, w1)
           | (Inl e, w1) \<Rightarrow>
               (Inl e, logHistoryEntry (orderId ord) [] (Some (Thrown e)) None w1)))"

text \<open>
  The \<^verbatim>\<open>process\<close> function of the queue. The cancellation is started and not awaited:
  what it throws does not reach the queue. The request context of the job is the
  serialized one, deserialized.
\<close>

fun process :: "services \<Rightarrow> job_data \<Rightarrow> world \<Rightarrow> (exn + unit) \<times> world" where
  "process sv (CancelSubscriptionsJob ctx orderLineId) w =
     (Inr (), snd (cancelSubscriptionForOrderLine sv ctx orderLineId w))"
| "process sv (CreateSubscriptionsJob ctx orderCode stripeCustomerId stripePaymentMethodId) w =
     (let ordr = findOneByCode w orderCode
      in case createSubscriptions sv ctx orderCode stripeCustomerId stripePaymentMethodId w of
           (Inr u, w1) \<Rightarrow> (Inr u, w1)
         | (Inl err, w1) \<Rightarrow>
             (Inl err,
              (case ordr of
                 None \<Rightarrow> w1
               | Some ord \<Rightarrow>
                   logHistoryEntry (orderId ord) ''Failed to create subscription''
                     (Some (Thrown err)) None w1)))"

fun isHistoryEntry :: "effect \<Rightarrow> bool" where
  "isHistoryEntry (HistoryEntry h) = True"
| "isHistoryEntry e = False"

fun isSubscriptionsUpdate :: "effect \<Rightarrow> bool" where
  "isSubscriptionsUpdate (SubscriptionsUpdate s) = True"
| "isSubscriptionsUpdate e = False"

subsection \<open>Concrete inputs\<close>

text \<open>
  One channel, one order of total zero with a subscription line, a plain line and a
  line whose identifier list is empty; a provider that refuses to cancel \<open>sub_A\<close>.
\<close>

definition ctx0 :: request_context where
  "ctx0 = \<lparr>channelToken = ''c1'', activeOrderId = Some ''1''\<rparr>"

definition pm_stripe :: payment_method where
  "pm_stripe =
     \<lparr>pmCode = ''stripe-sub'', enabled = True, handlerCode = ''stripe-subscription'',
      handlerArgs = [\<lparr>argName = ''apiKey'', argValue = ''sk_test''\<rparr>,
                     \<lparr>argName = ''webhookSecret'', argValue = ''whsec''\<rparr>]\<rparr>"

definition pm_nokey :: payment_method where
  "pm_nokey =
     \<lparr>pmCode = ''stripe-sub'', enabled = True, handlerCode = ''stripe-subscription'',
      handlerArgs = [\<lparr>argName = ''webhookSecret'', argValue = ''whsec''\<rparr>]\<rparr>"

definition line_sub :: order_line where
  "line_sub = \<lparr>lineId = ''10'', subscriptionHash = None,
               subscriptionIds = Some [''sub_A'', ''sub_B''], subscriptionSchedule = True\<rparr>"

definition line_plain :: order_line where
  "line_plain = \<lparr>lineId = ''11'', subscriptionHash = None,
                 subscriptionIds = None, subscriptionSchedule = False\<rparr>"

definition line_empty :: order_line where
  "line_empty = \<lparr>lineId = ''12'', subscriptionHash = None,
                 subscriptionIds = Some [], subscriptionSchedule = True\<rparr>"

definition order0 :: order where
  "order0 = \<lparr>orderId = ''1'', code = ''ORD1'', state = ''AddingItems'', totalWithTax = 0,
              currencyCode = ''USD'', lines = [line_sub, line_plain, line_empty],
              customer = None, shippingLines = [], surcharges = []\<rparr>"

definition order_ready :: order where
  "order_ready = order0\<lparr>customer := Some \<lparr>customerId = ''7'', emailAddress = ''a@b.c''\<rparr>,
                        shippingLines := [''s1'']\<rparr>"

definition w0 :: world where
  "w0 = \<lparr>orders = [order0], paymentMethods = [(''c1'', pm_stripe)], effects = [],
          uuidsDrawn = 0\<rparr>"

definition w_nokey :: world where
  "w_nokey = w0\<lparr>paymentMethods := [(''c1'', pm_nokey)]\<rparr>"

definition w_none :: world where
  "w_none = w0\<lparr>paymentMethods := [(''c1'', pm_stripe\<lparr>enabled := False\<rparr>)]\<rparr>"

definition w_ready :: world where
  "w_ready = w0\<lparr>orders := [order_ready]\<rparr>"

definition w_paid :: world where
  "w_paid = w0\<lparr>orders := [order_ready\<lparr>totalWithTax := 2500\<rparr>]\<rparr>"

definition sv0 :: services where
  "sv0 = \<lparr>isSubscription = (\<lambda>ctx l. subscriptionSchedule l),
          randomUUID = (\<lambda>n. replicate (Suc n) CHR ''u''),
          subscriptionsUpdate =
            (\<lambda>tr sid. if sid = ''sub_A'' then Some (Error ''provider down'') else None),
          transitionToState = (\<lambda>tr oid st. None),
          addPaymentToOrder = (\<lambda>tr oid inp. None),
          getEligiblePaymentMethods =
            (\<lambda>tr oid. [\<lparr>quoteCode = ''stripe-sub'', isEligible = True\<rparr>]),
          getOrCreateCustomer = (\<lambda>tr c. Inr ''cus_1''),
          paymentIntentsCreate =
            (\<lambda>tr p. Inr \<lparr>createdIntentId = ''pi_1'', client_secret = Some ''secret''\<rparr>),
          subscriptionCreation = no_subscriptionCreation\<rparr>"

definition sv_failing :: services where
  "sv_failing =
     sv0\<lparr>subscriptionCreation := (\<lambda>ctx ord cid pmid w. (Inl (Error ''card declined''), w))\<rparr>"

definition w_failed :: world where
  "w_failed =
     w0\<lparr>effects :=
          [HistoryEntry \<lparr>entryOrderId = ''1'', message = [], valid = False,
                         error = Some (Thrown (Error ''card declined'')),
                         entrySubscriptionId = None\<rparr>,
           HistoryEntry \<lparr>entryOrderId = ''1'', message = ''Failed to create subscription'',
                         valid = False, error = Some (Thrown (Error ''card declined'')),
                         entrySubscriptionId = None\<rparr>]\<rparr>"

definition intent_no_customer :: stripe_payment_intent where
  "intent_no_customer = \<lparr>intentId = ''pi_1'', webhookCustomer = None,
                         payment_method = ''pm_1'', metadataAmount = ''2500''\<rparr>"

definition intent_ok :: stripe_payment_intent where
  "intent_ok = intent_no_customer\<lparr>webhookCustomer := Some ''cus_1''\<rparr>"

definition release_event :: stock_movement_event where
  "release_event =
     \<lparr>movementEventCtx = ctx0, movementEventType = RELEASE,
      stockMovements = [\<lparr>movementId = ''m1'', movementOrderLine = line_sub\<rparr>,
                        \<lparr>movementId = ''m2'', movementOrderLine = line_plain\<rparr>]\<rparr>"

definition release_empty_event :: stock_movement_event where
  "release_empty_event =
     \<lparr>movementEventCtx = ctx0, movementEventType = RELEASE,
      stockMovements = [\<lparr>movementId = ''m3'', movementOrderLine = line_empty\<rparr>]\<rparr>"

definition line_created_event :: order_line_event where
  "line_created_event =
     \<lparr>lineEventCtx = ctx0, lineEventType = created, orderLine = line_sub\<rparr>"

subsection \<open>The history entries of a cancellation\<close>

text \<open>
  The entry \<^verbatim>\<open>cancelSubscriptionForOrderLine\<close> writes for an identifier whose provider
  request threw \<open>e\<close>, and the entry it writes for one whose request succeeded.
\<close>

definition cancel_failed :: "ID \<Rightarrow> string \<Rightarrow> exn \<Rightarrow> history_entry" where
  "cancel_failed oid sid e =
     \<lparr>entryOrderId = oid, message = ''Failed to cancel '' @ sid, valid = False,
      error = Some (Thrown e), entrySubscriptionId = Some sid\<rparr>"

definition cancel_succeeded :: "ID \<Rightarrow> string \<Rightarrow> history_entry" where
  "cancel_succeeded oid sid =
     \<lparr>entryOrderId = oid, message = ''Cancelled subscription '' @ sid, valid = True,
      error = None, entrySubscriptionId = Some sid\<rparr>"

section \<open>Properties\<close>

subsection \<open>The trace and the store under the basic steps\<close>

lemma effects_emit: "effects (emit e w) = effects w @ [e]"
  by (simp add: emit_def)

lemma orders_emit: "orders (emit e w) = orders w"
  by (simp add: emit_def)

lemma paymentMethods_emit: "paymentMethods (emit e w) = paymentMethods w"
  by (simp add: emit_def)

subsection \<open>Provider-context resolution\<close>

lemma stripe_methods_filter:
  "filter (\<lambda>pm. handlerCode pm = stripeSubscriptionHandler_code) (findAll_enabled ctx w)
     = stripe_methods ctx w"
  by (simp add: findAll_enabled_def stripe_methods_def stripeSubscriptionHandler_code_def
        filter_map comp_def conj_commute conj_left_commute)

lemma getStripeContext_many:
  "length (stripe_methods ctx w) > 1 \<Longrightarrow> \<exists>msg. getStripeContext ctx w = Inl (UserInputError msg)"
  by (simp add: getStripeContext_def stripe_methods_filter)

lemma getStripeContext_zero:
  "stripe_methods ctx w = [] \<Longrightarrow> \<exists>msg. getStripeContext ctx w = Inl (UserInputError msg)"
  by (simp add: getStripeContext_def stripe_methods_filter)

lemma getStripeContext_one:
  "stripe_methods ctx w = [pm] \<Longrightarrow>
     getStripeContext ctx w =
       (if falsy (arg_value ''apiKey'' pm) \<or> falsy (arg_value ''webhookSecret'' pm) then
          Inl (Error (''Payment method '' @ pmCode pm
                        @ '' has no api key or webhook secret configured''))
        else Inr \<lparr>paymentMethod = pm,
                  stripeClient = \<lparr>clientWebhookSecret = the (arg_value ''webhookSecret'' pm),
                                  clientApiKey = the (arg_value ''apiKey'' pm)\<rparr>\<rparr>)"
  by (simp add: getStripeContext_def stripe_methods_filter Let_def)

text \<open>The resolution on the concrete channel \<open>c1\<close>.\<close>

lemma getStripeContext_w0:
  "getStripeContext ctx0 w0 =
     Inr \<lparr>paymentMethod = pm_stripe,
          stripeClient = \<lparr>clientWebhookSecret = ''whsec'', clientApiKey = ''sk_test''\<rparr>\<rparr>"
  by (simp add: getStripeContext_def findAll_enabled_def arg_value_def
        stripeSubscriptionHandler_code_def ctx0_def w0_def pm_stripe_def)

text \<open>
  C1, as the claim states it, fails: a channel with exactly one enabled payment method of
  the \<open>stripe-subscription\<close> handler, on which no API key is configured, does not resolve.
  The resolution throws a plain error there, not a user-input error.
\<close>

theorem getStripeContext_single_method_counterexample:
  "length (stripe_methods ctx0 w_nokey) = 1
   \<and> getStripeContext ctx0 w_nokey
       = Inl (Error ''Payment method stripe-sub has no api key or webhook secret configured'')"
  by (simp add: stripe_methods_def getStripeContext_def findAll_enabled_def arg_value_def
        stripeSubscriptionHandler_code_def ctx0_def w_nokey_def w0_def pm_nokey_def)

text \<open>
  C1, amended: for every request context, \<open>getStripeContext\<close> fails with a user-input
  error whenever the channel has zero, or more than one, enabled payment methods whose
  handler is the \<open>stripe-subscription\<close> handler. Whenever it has exactly one and that
  method has a non-empty API key and a non-empty webhook secret among its arguments, the
  resolution succeeds and returns that method with a client of these two credentials.
  Whenever it has exactly one and either credential is missing or empty, the resolution
  fails with a plain error.
\<close>

theorem getStripeContext_resolution:
  "(length (stripe_methods ctx w) \<noteq> 1 \<longrightarrow>
      (\<exists>msg. getStripeContext ctx w = Inl (UserInputError msg)))
   \<and> (\<forall>pm k s. stripe_methods ctx w = [pm]
         \<and> arg_value ''apiKey'' pm = Some k \<and> k \<noteq> []
         \<and> arg_value ''webhookSecret'' pm = Some s \<and> s \<noteq> [] \<longrightarrow>
         getStripeContext ctx w =
           Inr \<lparr>paymentMethod = pm,
                stripeClient = \<lparr>clientWebhookSecret = s, clientApiKey = k\<rparr>\<rparr>)
   \<and> (\<forall>pm. stripe_methods ctx w = [pm]
         \<and> (falsy (arg_value ''apiKey'' pm) \<or> falsy (arg_value ''webhookSecret'' pm)) \<longrightarrow>
         (\<exists>msg. getStripeContext ctx w = Inl (Error msg)))"
proof (intro conjI allI impI)
  assume n: "length (stripe_methods ctx w) \<noteq> 1"
  show "\<exists>msg. getStripeContext ctx w = Inl (UserInputError msg)"
  proof (cases "stripe_methods ctx w = []")
    case True
    then show ?thesis by (rule getStripeContext_zero)
  next
    case False
    with n have "length (stripe_methods ctx w) > 1"
      by (cases "stripe_methods ctx w") auto
    then show ?thesis by (rule getStripeContext_many)
  qed
next
  fix pm k s
  assume "stripe_methods ctx w = [pm] \<and> arg_value ''apiKey'' pm = Some k \<and> k \<noteq> []
            \<and> arg_value ''webhookSecret'' pm = Some s \<and> s \<noteq> []"
  then show "getStripeContext ctx w =
           Inr \<lparr>paymentMethod = pm,
                stripeClient = \<lparr>clientWebhookSecret = s, clientApiKey = k\<rparr>\<rparr>"
    by (simp add: getStripeContext_one)
next
  fix pm
  assume "stripe_methods ctx w = [pm]
            \<and> (falsy (arg_value ''apiKey'' pm) \<or> falsy (arg_value ''webhookSecret'' pm))"
  then show "\<exists>msg. getStripeContext ctx w = Inl (Error msg)"
    by (auto simp add: getStripeContext_one)
qed

theorem getStripeContext_resolution_witness:
  "length (stripe_methods ctx0 w_none) \<noteq> 1
   \<and> (\<exists>msg. getStripeContext ctx0 w_none = Inl (UserInputError msg))
   \<and> stripe_methods ctx0 w0 = [pm_stripe]
   \<and> getStripeContext ctx0 w0 =
       Inr \<lparr>paymentMethod = pm_stripe,
            stripeClient = \<lparr>clientWebhookSecret = ''whsec'', clientApiKey = ''sk_test''\<rparr>\<rparr>
   \<and> stripe_methods ctx0 w_nokey = [pm_nokey]
   \<and> (\<exists>msg. getStripeContext ctx0 w_nokey = Inl (Error msg))"
proof -
  have a: "length (stripe_methods ctx0 w_none) \<noteq> 1"
    by (simp add: stripe_methods_def ctx0_def w_none_def w0_def pm_stripe_def)
  have b: "stripe_methods ctx0 w0 = [pm_stripe]"
    by (simp add: stripe_methods_def ctx0_def w0_def pm_stripe_def)
  have b': "arg_value ''apiKey'' pm_stripe = Some ''sk_test''"
       "arg_value ''webhookSecret'' pm_stripe = Some ''whsec''"
    by (simp_all add: arg_value_def pm_stripe_def)
  have c: "stripe_methods ctx0 w_nokey = [pm_nokey]"
    by (simp add: stripe_methods_def ctx0_def w_nokey_def w0_def pm_nokey_def)
  have c': "falsy (arg_value ''apiKey'' pm_nokey)"
    by (simp add: arg_value_def pm_nokey_def)
  from getStripeContext_resolution [of ctx0 w_none] a
  have 1: "\<exists>msg. getStripeContext ctx0 w_none = Inl (UserInputError msg)" by blast
  from getStripeContext_resolution [of ctx0 w0] b b'
  have 2: "getStripeContext ctx0 w0 =
       Inr \<lparr>paymentMethod = pm_stripe,
            stripeClient = \<lparr>clientWebhookSecret = ''whsec'', clientApiKey = ''sk_test''\<rparr>\<rparr>"
    by simp
  from getStripeContext_resolution [of ctx0 w_nokey] c c'
  have 3: "\<exists>msg. getStripeContext ctx0 w_nokey = Inl (Error msg)" by blast
  from a 1 b 2 c 3 show ?thesis by blast
qed

subsection \<open>Cancelling the subscriptions of an order line\<close>

lemma effects_logHistoryEntry:
  "effects (logHistoryEntry oid msg err sid w) =
     effects w @ [HistoryEntry \<lparr>entryOrderId = oid, message = msg, valid = (\<not> truthy err),
                                 error = (if truthy err then err else None),
                                 entrySubscriptionId = sid\<rparr>]"
  by (simp add: logHistoryEntry_def effects_emit)

lemma orders_logHistoryEntry: "orders (logHistoryEntry oid msg err sid w) = orders w"
  by (simp add: logHistoryEntry_def orders_emit)

text \<open>
  C9: for every order line of an existing order whose stored list of subscription
  identifiers is absent or empty, \<open>cancelSubscriptionForOrderLine\<close> returns normally and
  leaves the world as it found it: no provider request, no history entry, no change to
  the stored orders and lines.
\<close>

theorem cancelSubscriptionForOrderLine_no_identifiers:
  assumes "findOneByOrderLineId w lid = Some ord"
    and "find (\<lambda>l. lineId l = lid) (lines ord) = Some line"
    and "subscriptionIds line = None \<or> subscriptionIds line = Some []"
  shows "cancelSubscriptionForOrderLine sv ctx lid w = (Inr (), w)"
  using assms by (auto simp add: cancelSubscriptionForOrderLine_def)

theorem cancelSubscriptionForOrderLine_no_identifiers_witness:
  "findOneByOrderLineId w0 ''12'' = Some order0
   \<and> find (\<lambda>l. lineId l = ''12'') (lines order0) = Some line_empty
   \<and> subscriptionIds line_empty = Some []
   \<and> cancelSubscriptionForOrderLine sv0 ctx0 ''12'' w0 = (Inr (), w0)"
proof -
  have a: "findOneByOrderLineId w0 ''12'' = Some order0"
    by (simp add: findOneByOrderLineId_def w0_def order0_def line_sub_def line_plain_def
          line_empty_def)
  have b: "find (\<lambda>l. lineId l = ''12'') (lines order0) = Some line_empty"
    by (simp add: order0_def line_sub_def line_plain_def line_empty_def)
  have c: "subscriptionIds line_empty = Some []"
    by (simp add: line_empty_def)
  from cancelSubscriptionForOrderLine_no_identifiers [OF a b, of sv0 ctx0] c
  have "cancelSubscriptionForOrderLine sv0 ctx0 ''12'' w0 = (Inr (), w0)" by simp
  with a b c show ?thesis by simp
qed

text \<open>
  The loop in general: whatever the provider answers, every identifier is requested,
  in order, and each request is followed by one history entry.
\<close>

lemma cancel_each_trace:
  "\<exists>new. effects (cancel_each sv oid ids w) = effects w @ new
         \<and> filter isSubscriptionsUpdate new = map SubscriptionsUpdate ids
         \<and> length (filter isHistoryEntry new) = length ids
         \<and> length new = 2 * length ids"
proof (induction ids arbitrary: w)
  case Nil
  then show ?case by simp
next
  case (Cons sid rest)
  show ?case
  proof (cases "subscriptionsUpdate sv (effects w) sid")
    case None
    let ?w2 = "logHistoryEntry oid (''Cancelled subscription '' @ sid) None (Some sid)
                 (emit (SubscriptionsUpdate sid) w)"
    from Cons.IH [of ?w2] obtain new where
      "effects (cancel_each sv oid rest ?w2) = effects ?w2 @ new"
      "filter isSubscriptionsUpdate new = map SubscriptionsUpdate rest"
      "length (filter isHistoryEntry new) = length rest"
      "length new = 2 * length rest"
      by blast
    with None show ?thesis
      by (simp add: Let_def effects_logHistoryEntry effects_emit)
  next
    case (Some e)
    let ?w2 = "logHistoryEntry oid (''Failed to cancel '' @ sid) (Some (Thrown e)) (Some sid)
                 (emit (SubscriptionsUpdate sid) w)"
    from Cons.IH [of ?w2] obtain new where
      "effects (cancel_each sv oid rest ?w2) = effects ?w2 @ new"
      "filter isSubscriptionsUpdate new = map SubscriptionsUpdate rest"
      "length (filter isHistoryEntry new) = length rest"
      "length new = 2 * length rest"
      by blast
    with Some show ?thesis
      by (simp add: Let_def effects_logHistoryEntry effects_emit)
  qed
qed

text \<open>
  C3: when \<open>cancelSubscriptionForOrderLine\<close> runs on an order line whose stored
  identifiers are \<open>[A, B]\<close>, the provider refuses the request for \<open>A\<close> with \<open>e\<close> and
  accepts the following request for \<open>B\<close>, the handler returns normally and has added to
  the trace, in this order: the request for \<open>A\<close>, one history entry reporting the failure
  for \<open>A\<close>, the request for \<open>B\<close>, one history entry reporting the success for \<open>B\<close>; and
  nothing else.
\<close>

theorem cancelSubscriptionForOrderLine_partial_failure:
  assumes "findOneByOrderLineId w lid = Some ord"
    and "find (\<lambda>l. lineId l = lid) (lines ord) = Some line"
    and "subscriptionIds line = Some [A, B]"
    and "getStripeContext ctx w = Inr sc"
    and "subscriptionsUpdate sv (effects w) A = Some e"
    and "subscriptionsUpdate sv
           (effects w @ [SubscriptionsUpdate A, HistoryEntry (cancel_failed (orderId ord) A e)]) B
         = None"
  shows "cancelSubscriptionForOrderLine sv ctx lid w =
           (Inr (),
            w\<lparr>effects := effects w @
                 [SubscriptionsUpdate A, HistoryEntry (cancel_failed (orderId ord) A e),
                  SubscriptionsUpdate B, HistoryEntry (cancel_succeeded (orderId ord) B)]\<rparr>)"
  using assms
  by (simp add: cancelSubscriptionForOrderLine_def Let_def effects_emit effects_logHistoryEntry
        cancel_failed_def cancel_succeeded_def)
     (simp add: logHistoryEntry_def emit_def)

theorem cancelSubscriptionForOrderLine_partial_failure_witness:
  "findOneByOrderLineId w0 ''10'' = Some order0
   \<and> find (\<lambda>l. lineId l = ''10'') (lines order0) = Some line_sub
   \<and> subscriptionIds line_sub = Some [''sub_A'', ''sub_B'']
   \<and> subscriptionsUpdate sv0 (effects w0) ''sub_A'' = Some (Error ''provider down'')
   \<and> cancelSubscriptionForOrderLine sv0 ctx0 ''10'' w0 =
       (Inr (),
        w0\<lparr>effects :=
          [SubscriptionsUpdate ''sub_A'',
           HistoryEntry (cancel_failed ''1'' ''sub_A'' (Error ''provider down'')),
           SubscriptionsUpdate ''sub_B'',
           HistoryEntry (cancel_succeeded ''1'' ''sub_B'')]\<rparr>)"
proof -
  have a: "findOneByOrderLineId w0 ''10'' = Some order0"
    by (simp add: findOneByOrderLineId_def w0_def order0_def line_sub_def)
  have b: "find (\<lambda>l. lineId l = ''10'') (lines order0) = Some line_sub"
    by (simp add: order0_def line_sub_def)
  have c: "subscriptionIds line_sub = Some [''sub_A'', ''sub_B'']"
    by (simp add: line_sub_def)
  have d: "subscriptionsUpdate sv0 (effects w0) ''sub_A'' = Some (Error ''provider down'')"
    by (simp add: sv0_def)
  have e: "subscriptionsUpdate sv0
             (effects w0 @ [SubscriptionsUpdate ''sub_A'',
                HistoryEntry (cancel_failed (orderId order0) ''sub_A'' (Error ''provider down''))])
             ''sub_B'' = None"
    by (simp add: sv0_def)
  have f: "orderId order0 = ''1''" "effects w0 = []"
    by (simp_all add: order0_def w0_def)
  from cancelSubscriptionForOrderLine_partial_failure [OF a b c getStripeContext_w0 d e] f
  have "cancelSubscriptionForOrderLine sv0 ctx0 ''10'' w0 =
       (Inr (),
        w0\<lparr>effects :=
          [SubscriptionsUpdate ''sub_A'',
           HistoryEntry (cancel_failed ''1'' ''sub_A'' (Error ''provider down'')),
           SubscriptionsUpdate ''sub_B'',
           HistoryEntry (cancel_succeeded ''1'' ''sub_B'')]\<rparr>)"
    by simp
  with a b c d show ?thesis by simp
qed

subsection \<open>The payment-intent-succeeded webhook\<close>

lemma effects_set_state: "effects (set_state oid st w) = effects w"
  by (simp add: set_state_def)

lemma new_effects_append: "effects w' = effects w @ xs \<Longrightarrow> new_effects w w' = xs"
  by (simp add: new_effects_def)

text \<open>What the webhook handler does when the payload has no customer.\<close>

lemma handlePaymentIntentSucceeded_no_customer:
  assumes "falsy (webhookCustomer object)"
  shows "handlePaymentIntentSucceeded sv ctx object ord w =
           (case getStripeContext ctx w of
              Inl e \<Rightarrow> (Inl e, w)
            | Inr sc \<Rightarrow>
                (Inl (Error (''No customer found in webhook data for order '' @ code ord)),
                 logHistoryEntry (orderId ord) []
                   (Some (Text (''No customer ID found in incoming webhook. ''
                                  @ ''Can not create subscriptions for this order.''))) None w))"
  using assms by (simp add: handlePaymentIntentSucceeded_def Let_def split: sum.splits)

text \<open>
  C2: for every payment-intent-succeeded payload that carries no customer identifier
  (none, or an empty one), \<open>handlePaymentIntentSucceeded\<close> throws, the stored orders are
  as before, and what it has added to the trace holds neither a state-transition request
  nor a payment-settlement request.
\<close>

theorem handlePaymentIntentSucceeded_without_customer_aborts:
  assumes "falsy (webhookCustomer object)"
  shows "(\<exists>e. fst (handlePaymentIntentSucceeded sv ctx object ord w) = Inl e)
         \<and> orders (snd (handlePaymentIntentSucceeded sv ctx object ord w)) = orders w
         \<and> (\<exists>new. effects (snd (handlePaymentIntentSucceeded sv ctx object ord w))
                     = effects w @ new
                 \<and> \<not> list_ex isTransitionToState new \<and> \<not> list_ex isAddPaymentToOrder new)"
  by (cases "getStripeContext ctx w")
     (simp_all add: handlePaymentIntentSucceeded_no_customer [OF assms]
        effects_logHistoryEntry orders_logHistoryEntry)

theorem handlePaymentIntentSucceeded_without_customer_aborts_witness:
  "falsy (webhookCustomer intent_no_customer)
   \<and> handlePaymentIntentSucceeded sv0 ctx0 intent_no_customer order0 w0
       = (Inl (Error ''No customer found in webhook data for order ORD1''),
          w0\<lparr>effects := [HistoryEntry
             \<lparr>entryOrderId = ''1'', message = [], valid = False,
              error = Some (Text (''No customer ID found in incoming webhook. ''
                                    @ ''Can not create subscriptions for this order.'')),
              entrySubscriptionId = None\<rparr>]\<rparr>)
   \<and> (\<exists>e. fst (handlePaymentIntentSucceeded sv0 ctx0 intent_no_customer order0 w0) = Inl e)
   \<and> (\<exists>new. effects (snd (handlePaymentIntentSucceeded sv0 ctx0 intent_no_customer order0 w0))
               = effects w0 @ new
           \<and> \<not> list_ex isTransitionToState new \<and> \<not> list_ex isAddPaymentToOrder new)"
proof -
  have a: "falsy (webhookCustomer intent_no_customer)"
    by (simp add: intent_no_customer_def)
  have b: "handlePaymentIntentSucceeded sv0 ctx0 intent_no_customer order0 w0
       = (Inl (Error ''No customer found in webhook data for order ORD1''),
          w0\<lparr>effects := [HistoryEntry
             \<lparr>entryOrderId = ''1'', message = [], valid = False,
              error = Some (Text (''No customer ID found in incoming webhook. ''
                                    @ ''Can not create subscriptions for this order.'')),
              entrySubscriptionId = None\<rparr>]\<rparr>)"
    by (simp add: handlePaymentIntentSucceeded_def getStripeContext_w0 intent_no_customer_def)
       (simp add: logHistoryEntry_def emit_def order0_def w0_def)
  from handlePaymentIntentSucceeded_without_customer_aborts [OF a, of sv0 ctx0 order0 w0] a b
  show ?thesis by blast
qed

lemma handlePaymentIntentSucceeded_trace:
  "\<exists>new. effects (snd (handlePaymentIntentSucceeded sv ctx object ord w)) = effects w @ new
     \<and> (\<forall>d r. JobAdd d r \<in> set new \<longrightarrow>
           r = Some 0
           \<and> d = CreateSubscriptionsJob ctx (code ord) (the (webhookCustomer object))
                   (payment_method object))"
  by (auto simp add: handlePaymentIntentSucceeded_def Let_def effects_emit effects_set_state
        effects_logHistoryEntry split: sum.splits option.splits)

text \<open>
  C4: every \<open>createSubscriptionsForOrder\<close> job that \<open>handlePaymentIntentSucceeded\<close>
  adds to the job queue is added with a configured retry count of zero, so the queue runs
  it once and does not run it again, whatever the job does.
\<close>

theorem handlePaymentIntentSucceeded_job_retries:
  assumes "JobAdd (CreateSubscriptionsJob c oc cid pmid) r
             \<in> set (new_effects w (snd (handlePaymentIntentSucceeded sv ctx object ord w)))"
  shows "r = Some 0 \<and> (\<forall>job w'. fst (runWithRetries (the r) job w') = 1)"
proof -
  obtain new where
    n: "effects (snd (handlePaymentIntentSucceeded sv ctx object ord w)) = effects w @ new"
    and j: "\<forall>d r. JobAdd d r \<in> set new \<longrightarrow> r = Some 0
           \<and> d = CreateSubscriptionsJob ctx (code ord) (the (webhookCustomer object))
                   (payment_method object)"
    using handlePaymentIntentSucceeded_trace by blast
  from n have "new_effects w (snd (handlePaymentIntentSucceeded sv ctx object ord w)) = new"
    by (rule new_effects_append)
  with assms j have "r = Some 0" by simp
  then show ?thesis by simp
qed

theorem handlePaymentIntentSucceeded_job_retries_witness:
  "JobAdd (CreateSubscriptionsJob ctx0 ''ORD1'' ''cus_1'' ''pm_1'') (Some 0)
     \<in> set (new_effects w0 (snd (handlePaymentIntentSucceeded sv0 ctx0 intent_ok order0 w0)))
   \<and> (\<forall>job w'. fst (runWithRetries (the (Some 0)) job w') = 1)"
proof -
  have a: "effects (snd (handlePaymentIntentSucceeded sv0 ctx0 intent_ok order0 w0)) =
      [JobAdd (CreateSubscriptionsJob ctx0 ''ORD1'' ''cus_1'' ''pm_1'') (Some 0),
       TransitionToState ''1'' ''ArrangingPayment'',
       AddPaymentToOrder ''1'' \<lparr>paymentMethodInput = ''stripe-sub'', setupIntentId = ''pi_1'',
                                 paymentAmount = ''2500''\<rparr>]"
    by (simp add: handlePaymentIntentSucceeded_def getStripeContext_w0 intent_ok_def
          intent_no_customer_def Let_def)
       (simp add: sv0_def order0_def effects_emit effects_set_state pm_stripe_def w0_def)
  have b: "JobAdd (CreateSubscriptionsJob ctx0 ''ORD1'' ''cus_1'' ''pm_1'') (Some 0)
     \<in> set (new_effects w0 (snd (handlePaymentIntentSucceeded sv0 ctx0 intent_ok order0 w0)))"
    by (simp add: new_effects_def a) (simp add: w0_def)
  from handlePaymentIntentSucceeded_job_retries [OF b] b show ?thesis by blast
qed

subsection \<open>Creating the payment intent\<close>

lemma find_map_same:
  assumes "\<And>x. P (f x) = P x"
  shows "find P (map f xs) = map_option f (find P xs)"
  using assms by (induction xs) auto

lemma find_Some_holds: "find P xs = Some x \<Longrightarrow> P x"
  by (induction xs) (auto split: if_splits)

lemma orderId_withSurcharge: "orderId (withSurcharge s x) = orderId x"
  by (simp add: withSurcharge_def)

lemma getActiveOrder_orderId:
  "getActiveOrder ctx w = Some ord \<Longrightarrow> activeOrderId ctx = Some (orderId ord)"
  by (auto simp add: getActiveOrder_def split: option.splits dest: find_Some_holds)

lemma getActiveOrder_find:
  "getActiveOrder ctx w = Some ord \<Longrightarrow> find (\<lambda>x. orderId x = orderId ord) (orders w) = Some ord"
  by (auto simp add: getActiveOrder_def split: option.splits dest: find_Some_holds)

text \<open>The surcharge step on the active order.\<close>

lemma addSurchargeToOrder_active:
  assumes "getActiveOrder ctx w = Some ord"
  shows "addSurchargeToOrder (orderId ord) s w =
           (Inr (withSurcharge s ord),
            emit (AddSurchargeToOrder (orderId ord) s)
              (w\<lparr>orders := map (\<lambda>x. if orderId x = orderId ord then withSurcharge s x else x)
                                (orders w)\<rparr>))"
  using getActiveOrder_find [OF assms] by (simp add: addSurchargeToOrder_def)

lemma createIntent_shape:
  assumes "getActiveOrder ctx w = Some ord"
  shows "\<exists>rest. effects (snd (createIntent sv ctx w))
                  = effects w
                    @ (if totalWithTax ord = 0
                       then [AddSurchargeToOrder (orderId ord) verification_fee] else [])
                    @ rest
               \<and> \<not> list_ex isAddSurchargeToOrder rest
               \<and> orders (snd (createIntent sv ctx w))
                   = (if totalWithTax ord = 0
                      then map (\<lambda>x. if orderId x = orderId ord
                                     then withSurcharge verification_fee x else x) (orders w)
                      else orders w)"
  using assms
  by (auto simp add: createIntent_def addSurchargeToOrder_active Let_def effects_emit orders_emit
        split: sum.splits option.splits)

lemma getActiveOrder_surcharged:
  assumes "getActiveOrder ctx w = Some ord"
    and "orders w' = map (\<lambda>x. if orderId x = orderId ord then withSurcharge s x else x)
                        (orders w)"
  shows "getActiveOrder ctx w' = Some (withSurcharge s ord)"
proof -
  have "find (\<lambda>x. orderId x = orderId ord)
          (map (\<lambda>x. if orderId x = orderId ord then withSurcharge s x else x) (orders w))
        = map_option (\<lambda>x. if orderId x = orderId ord then withSurcharge s x else x)
            (find (\<lambda>x. orderId x = orderId ord) (orders w))"
    by (rule find_map_same) (simp add: orderId_withSurcharge)
  then show ?thesis
    using getActiveOrder_find [OF assms(1)] getActiveOrder_orderId [OF assms(1)] assms(2)
    by (simp add: getActiveOrder_def)
qed

text \<open>
  C5: for every active order whose total with tax is zero, the first thing
  \<open>createIntent\<close> adds to the trace is one surcharge (the verification fee) on that
  order, and nothing it does afterwards is a surcharge; so exactly one surcharge is added,
  before every provider request, and the stored order ends with the fee as its last
  surcharge. For an active order with a non-zero total, \<open>createIntent\<close> adds no
  surcharge and leaves the stored orders as they are.
\<close>

theorem createIntent_verification_surcharge:
  assumes "getActiveOrder ctx w = Some ord"
  shows "(totalWithTax ord = 0 \<longrightarrow>
            (\<exists>rest. new_effects w (snd (createIntent sv ctx w))
                      = AddSurchargeToOrder (orderId ord) verification_fee # rest
                   \<and> \<not> list_ex isAddSurchargeToOrder rest)
            \<and> map_option surcharges (getActiveOrder ctx (snd (createIntent sv ctx w)))
                = Some (surcharges ord @ [verification_fee]))
         \<and> (totalWithTax ord \<noteq> 0 \<longrightarrow>
              \<not> list_ex isAddSurchargeToOrder (new_effects w (snd (createIntent sv ctx w)))
              \<and> orders (snd (createIntent sv ctx w)) = orders w)"
proof -
  obtain rest where
    e: "effects (snd (createIntent sv ctx w))
          = effects w
            @ (if totalWithTax ord = 0
               then [AddSurchargeToOrder (orderId ord) verification_fee] else [])
            @ rest"
    and r: "\<not> list_ex isAddSurchargeToOrder rest"
    and o: "orders (snd (createIntent sv ctx w))
              = (if totalWithTax ord = 0
                 then map (\<lambda>x. if orderId x = orderId ord
                                then withSurcharge verification_fee x else x) (orders w)
                 else orders w)"
    using createIntent_shape [OF assms] by blast
  show ?thesis
  proof (intro conjI impI)
    assume z: "totalWithTax ord = 0"
    from e z have "new_effects w (snd (createIntent sv ctx w))
                     = AddSurchargeToOrder (orderId ord) verification_fee # rest"
      by (simp add: new_effects_def)
    with r show "\<exists>rest. new_effects w (snd (createIntent sv ctx w))
                      = AddSurchargeToOrder (orderId ord) verification_fee # rest
                   \<and> \<not> list_ex isAddSurchargeToOrder rest"
      by blast
    from o z have "getActiveOrder ctx (snd (createIntent sv ctx w))
                     = Some (withSurcharge verification_fee ord)"
      by (simp add: getActiveOrder_surcharged [OF assms])
    then show "map_option surcharges (getActiveOrder ctx (snd (createIntent sv ctx w)))
                 = Some (surcharges ord @ [verification_fee])"
      by (simp add: withSurcharge_def)
  next
    assume nz: "totalWithTax ord \<noteq> 0"
    from e nz have "new_effects w (snd (createIntent sv ctx w)) = rest"
      by (simp add: new_effects_def)
    with r show "\<not> list_ex isAddSurchargeToOrder (new_effects w (snd (createIntent sv ctx w)))"
      by simp
    from o nz show "orders (snd (createIntent sv ctx w)) = orders w" by simp
  qed
qed

theorem createIntent_verification_surcharge_witness:
  "getActiveOrder ctx0 w_ready = Some order_ready
   \<and> totalWithTax order_ready = 0
   \<and> (\<exists>rest. new_effects w_ready (snd (createIntent sv0 ctx0 w_ready))
                = AddSurchargeToOrder (orderId order_ready) verification_fee # rest
             \<and> \<not> list_ex isAddSurchargeToOrder rest)
   \<and> getActiveOrder ctx0 w_paid = Some (order_ready\<lparr>totalWithTax := 2500\<rparr>)
   \<and> \<not> list_ex isAddSurchargeToOrder (new_effects w_paid (snd (createIntent sv0 ctx0 w_paid)))
   \<and> orders (snd (createIntent sv0 ctx0 w_paid)) = orders w_paid"
proof -
  have a: "getActiveOrder ctx0 w_ready = Some order_ready" by code_simp
  have b: "totalWithTax order_ready = 0" by code_simp
  have c: "getActiveOrder ctx0 w_paid = Some (order_ready\<lparr>totalWithTax := 2500\<rparr>)"
    by code_simp
  have d: "totalWithTax (order_ready\<lparr>totalWithTax := 2500\<rparr>) \<noteq> 0" by simp
  from createIntent_verification_surcharge [OF a, of sv0] b
       createIntent_verification_surcharge [OF c, of sv0] d a c
  show ?thesis by blast
qed

text \<open>
  C10: \<open>createIntent\<close> does not undo the surcharge when it fails afterwards. For an
  active order of total zero that has no lines, no customer or no shipping line, the call
  throws a user-input error, the surcharge request is the one effect it leaves in the
  trace, and the stored order has the verification fee as its last surcharge.
\<close>

theorem createIntent_failed_validation_keeps_surcharge:
  assumes "getActiveOrder ctx w = Some ord"
    and "totalWithTax ord = 0"
    and "lines ord = [] \<or> customer ord = None \<or> shippingLines ord = []"
  shows "(\<exists>msg. fst (createIntent sv ctx w) = Inl (UserInputError msg))
         \<and> new_effects w (snd (createIntent sv ctx w))
             = [AddSurchargeToOrder (orderId ord) verification_fee]
         \<and> map_option surcharges (getActiveOrder ctx (snd (createIntent sv ctx w)))
             = Some (surcharges ord @ [verification_fee])"
proof -
  let ?w1 = "emit (AddSurchargeToOrder (orderId ord) verification_fee)
               (w\<lparr>orders := map (\<lambda>x. if orderId x = orderId ord
                                        then withSurcharge verification_fee x else x)
                                 (orders w)\<rparr>)"
  from assms have c: "\<exists>msg. createIntent sv ctx w = (Inl (UserInputError msg), ?w1)"
    by (auto simp add: createIntent_def addSurchargeToOrder_active withSurcharge_def
          split: option.splits)
  then obtain msg where m: "createIntent sv ctx w = (Inl (UserInputError msg), ?w1)" by blast
  have "getActiveOrder ctx ?w1 = Some (withSurcharge verification_fee ord)"
    by (rule getActiveOrder_surcharged [OF assms(1)]) (simp add: orders_emit)
  with m show ?thesis
    by (simp add: new_effects_def effects_emit withSurcharge_def)
qed

theorem createIntent_failed_validation_keeps_surcharge_witness:
  "getActiveOrder ctx0 w0 = Some order0
   \<and> totalWithTax order0 = 0
   \<and> customer order0 = None
   \<and> (\<exists>msg. fst (createIntent sv0 ctx0 w0) = Inl (UserInputError msg))
   \<and> new_effects w0 (snd (createIntent sv0 ctx0 w0))
       = [AddSurchargeToOrder (orderId order0) verification_fee]
   \<and> map_option surcharges (getActiveOrder ctx0 (snd (createIntent sv0 ctx0 w0)))
       = Some (surcharges order0 @ [verification_fee])"
proof -
  have a: "getActiveOrder ctx0 w0 = Some order0" by code_simp
  have b: "totalWithTax order0 = 0" by code_simp
  have c: "customer order0 = None" by code_simp
  from createIntent_failed_validation_keeps_surcharge [OF a b, of sv0] a b c
  show ?thesis by blast
qed

text \<open>A run of \<open>createIntent\<close> that reaches the provider, on an order of total zero.\<close>

lemma createIntent_w_ready:
  "createIntent sv0 ctx0 w_ready =
     (Inr \<lparr>clientSecret = ''secret'', intentType = SetupIntent\<rparr>,
      \<lparr>orders = [withSurcharge verification_fee order_ready],
       paymentMethods = [(''c1'', pm_stripe)],
       effects = [AddSurchargeToOrder ''1'' verification_fee,
                  GetOrCreateCustomer \<lparr>customerId = ''7'', emailAddress = ''a@b.c''\<rparr>,
                  CustomerUpdate ''7'' ''cus_1'',
                  PaymentIntentsCreate
                    \<lparr>intentCustomer = ''cus_1'', setup_future_usage = off_session,
                     amount = 100, currency = ''USD'', metaOrderCode = ''ORD1'',
                     metaChannelToken = ''c1'', metaAmount = 100\<rparr>],
       uuidsDrawn = 0\<rparr>)"
  by code_simp

subsection \<open>Stock movements\<close>

lemma effects_fold_emit:
  "effects (fold (\<lambda>x. emit (f x)) xs w) = effects w @ map f xs"
  by (induction xs arbitrary: w) (simp_all add: effects_emit)

lemma truthy_array_iff: "truthy_array x = (x \<noteq> None)"
  by (cases x) simp_all

text \<open>The jobs the subscriber adds: one for each movement whose line has the field set.\<close>

lemma onStockMovementEvent_jobs:
  "new_effects w (onStockMovementEvent event w) =
     (if movementEventType event = RELEASE \<or> movementEventType event = CANCELLATION then
        map (\<lambda>m. JobAdd (CancelSubscriptionsJob (movementEventCtx event) (movementId m)) None)
            (filter (\<lambda>m. subscriptionIds (movementOrderLine m) \<noteq> None) (stockMovements event))
      else [])"
  by (simp add: onStockMovementEvent_def new_effects_def effects_fold_emit truthy_array_iff)

text \<open>
  C7 does not hold of the subscriber as written. The filter tests the truth value of
  \<^verbatim>\<open>subscriptionIds\<close>, and an empty array is true: for a release whose one movement
  is of a line with an empty identifier list, so that no movement of the event has a
  stored identifier, a cancellation job is added all the same. (It carries the id of the
  stock movement as its \<^verbatim>\<open>orderLineId\<close>.)
\<close>

theorem onStockMovementEvent_empty_identifier_list:
  "movementEventType release_empty_event = RELEASE
   \<and> map (\<lambda>m. subscriptionIds (movementOrderLine m)) (stockMovements release_empty_event)
       = [Some []]
   \<and> movements_with_subscriptions release_empty_event = []
   \<and> new_effects w0 (onStockMovementEvent release_empty_event w0)
       = [JobAdd (CancelSubscriptionsJob ctx0 ''m3'') None]"
  by code_simp

subsection \<open>The correlation hash of a new order line\<close>

lemma set_map_filter: "set (List.map_filter f xs) = {y. \<exists>x \<in> set xs. f x = Some y}"
  by (induction xs) (auto simp add: List.map_filter_simps split: option.splits)

lemma hashes_drawn_iff:
  "hashes_drawn sv w =
     (\<forall>l \<in> set (stored_lines w). \<forall>h. subscriptionHash l = Some h \<longrightarrow>
        (\<exists>k < uuidsDrawn w. randomUUID sv k = h))"
  by (auto simp add: hashes_drawn_def stored_hashes_def list_all_iff list_ex_iff set_map_filter
        Bex_def)

lemma stored_lines_updateSubscriptionHash:
  "stored_lines (updateSubscriptionHash lid h w) =
     map (\<lambda>l. if lineId l = lid then l\<lparr>subscriptionHash := Some h\<rparr> else l) (stored_lines w)"
  by (simp add: stored_lines_def updateSubscriptionHash_def orders_emit map_concat comp_def)

lemma stored_lines_uuidsDrawn: "stored_lines (w\<lparr>uuidsDrawn := n\<rparr>) = stored_lines w"
  by (simp add: stored_lines_def)

lemma uuidsDrawn_updateSubscriptionHash:
  "uuidsDrawn (updateSubscriptionHash lid h w) = uuidsDrawn w"
  by (simp add: updateSubscriptionHash_def emit_def)

lemma effects_updateSubscriptionHash:
  "effects (updateSubscriptionHash lid h w) = effects w @ [OrderLineUpdate lid h]"
  by (simp add: updateSubscriptionHash_def effects_emit)

text \<open>
  C6: \<open>randomUUID\<close> is the platform's generator, taken by its contract: it never
  returns the empty text and never returns the same identifier twice. Under that contract,
  and in a world whose stored hashes all came from the generator (which the handler
  keeps), for every order-line event of type \<open>created\<close> whose line the strategy
  classifies as a subscription the handler stores one hash on the lines of the event's
  id: it is not empty, no line had it before, the lines that have it afterwards are
  exactly the lines of that id, and the repository update is the one effect. For a line that is not classified as a
  subscription, or an event of any other type, the handler leaves the world as it is.
\<close>

theorem onOrderLineEvent_correlation_hash:
  assumes uniq: "inj (randomUUID sv)"
    and nonempty: "\<forall>n. randomUUID sv n \<noteq> []"
    and inv: "hashes_drawn sv w"
  shows "(lineEventType event = created
            \<and> isSubscription sv (lineEventCtx event) (orderLine event) \<longrightarrow>
          (\<exists>h. h \<noteq> [] \<and> h \<notin> set (stored_hashes w)
              \<and> stored_lines (onOrderLineEvent sv event w)
                  = map (\<lambda>l. if lineId l = lineId (orderLine event)
                             then l\<lparr>subscriptionHash := Some h\<rparr> else l) (stored_lines w)
              \<and> (\<forall>l \<in> set (stored_lines (onOrderLineEvent sv event w)).
                    (subscriptionHash l = Some h) = (lineId l = lineId (orderLine event)))
              \<and> new_effects w (onOrderLineEvent sv event w)
                  = [OrderLineUpdate (lineId (orderLine event)) h]
              \<and> hashes_drawn sv (onOrderLineEvent sv event w)))
         \<and> (\<not> (lineEventType event = created
                \<and> isSubscription sv (lineEventCtx event) (orderLine event)) \<longrightarrow>
              onOrderLineEvent sv event w = w)"
proof (intro conjI impI)
  assume c: "lineEventType event = created
               \<and> isSubscription sv (lineEventCtx event) (orderLine event)"
  let ?h = "randomUUID sv (uuidsDrawn w)"
  let ?w' = "onOrderLineEvent sv event w"
  have w': "?w' = updateSubscriptionHash (lineId (orderLine event)) ?h
                    (w\<lparr>uuidsDrawn := Suc (uuidsDrawn w)\<rparr>)"
    using c by (simp add: onOrderLineEvent_def)
  have 1: "?h \<noteq> []" using nonempty by simp
  have 2: "?h \<notin> set (stored_hashes w)"
  proof
    assume "?h \<in> set (stored_hashes w)"
    then obtain l where "l \<in> set (stored_lines w)" "subscriptionHash l = Some ?h"
      by (auto simp add: stored_hashes_def set_map_filter)
    with inv obtain k where "k < uuidsDrawn w" "randomUUID sv k = ?h"
      by (auto simp add: hashes_drawn_iff)
    with uniq show False by (auto dest: injD)
  qed
  have 3: "stored_lines ?w'
             = map (\<lambda>l. if lineId l = lineId (orderLine event)
                        then l\<lparr>subscriptionHash := Some ?h\<rparr> else l) (stored_lines w)"
    by (simp add: w' stored_lines_updateSubscriptionHash stored_lines_uuidsDrawn)
  have 6: "\<forall>l \<in> set (stored_lines ?w').
             (subscriptionHash l = Some ?h) = (lineId l = lineId (orderLine event))"
  proof
    fix l
    assume "l \<in> set (stored_lines ?w')"
    with 3 obtain l0 where l0: "l0 \<in> set (stored_lines w)"
      and ll: "l = (if lineId l0 = lineId (orderLine event)
                    then l0\<lparr>subscriptionHash := Some ?h\<rparr> else l0)"
      by auto
    from 2 l0 have "subscriptionHash l0 \<noteq> Some ?h"
      by (auto simp add: stored_hashes_def set_map_filter)
    with ll show "(subscriptionHash l = Some ?h) = (lineId l = lineId (orderLine event))"
      by simp
  qed
  have 4: "new_effects w ?w' = [OrderLineUpdate (lineId (orderLine event)) ?h]"
    by (simp add: w' new_effects_def effects_updateSubscriptionHash)
  have 5: "hashes_drawn sv ?w'"
    unfolding hashes_drawn_iff
  proof (intro ballI allI impI)
    fix l h
    assume l: "l \<in> set (stored_lines ?w')" and h: "subscriptionHash l = Some h"
    have n: "uuidsDrawn ?w' = Suc (uuidsDrawn w)"
      by (simp add: w' uuidsDrawn_updateSubscriptionHash)
    from l 3 obtain l0 where l0: "l0 \<in> set (stored_lines w)"
      and ll: "l = (if lineId l0 = lineId (orderLine event)
                    then l0\<lparr>subscriptionHash := Some ?h\<rparr> else l0)"
      by auto
    show "\<exists>k<uuidsDrawn ?w'. randomUUID sv k = h"
    proof (cases "lineId l0 = lineId (orderLine event)")
      case True
      with ll h have "h = ?h" by simp
      with n show ?thesis by auto
    next
      case False
      with ll h have "subscriptionHash l0 = Some h" by simp
      with inv l0 obtain k where "k < uuidsDrawn w" "randomUUID sv k = h"
        by (auto simp add: hashes_drawn_iff)
      with n show ?thesis by (auto intro: less_SucI)
    qed
  qed
  from 1 2 3 6 4 5
  show "\<exists>h. h \<noteq> [] \<and> h \<notin> set (stored_hashes w)
              \<and> stored_lines (onOrderLineEvent sv event w)
                  = map (\<lambda>l. if lineId l = lineId (orderLine event)
                             then l\<lparr>subscriptionHash := Some h\<rparr> else l) (stored_lines w)
              \<and> (\<forall>l \<in> set (stored_lines (onOrderLineEvent sv event w)).
                    (subscriptionHash l = Some h) = (lineId l = lineId (orderLine event)))
              \<and> new_effects w (onOrderLineEvent sv event w)
                  = [OrderLineUpdate (lineId (orderLine event)) h]
              \<and> hashes_drawn sv (onOrderLineEvent sv event w)"
    by blast
next
  assume "\<not> (lineEventType event = created
                \<and> isSubscription sv (lineEventCtx event) (orderLine event))"
  then show "onOrderLineEvent sv event w = w"
    by (auto simp add: onOrderLineEvent_def)
qed

theorem onOrderLineEvent_correlation_hash_witness:
  "inj (randomUUID sv0) \<and> (\<forall>n. randomUUID sv0 n \<noteq> []) \<and> hashes_drawn sv0 w0
   \<and> lineEventType line_created_event = created
   \<and> isSubscription sv0 (lineEventCtx line_created_event) (orderLine line_created_event)
   \<and> (\<exists>h. h \<noteq> [] \<and> h \<notin> set (stored_hashes w0)
          \<and> stored_lines (onOrderLineEvent sv0 line_created_event w0)
              = map (\<lambda>l. if lineId l = lineId (orderLine line_created_event)
                         then l\<lparr>subscriptionHash := Some h\<rparr> else l) (stored_lines w0)
          \<and> (\<forall>l \<in> set (stored_lines (onOrderLineEvent sv0 line_created_event w0)).
                (subscriptionHash l = Some h) = (lineId l = lineId (orderLine line_created_event)))
          \<and> new_effects w0 (onOrderLineEvent sv0 line_created_event w0)
              = [OrderLineUpdate (lineId (orderLine line_created_event)) h]
          \<and> hashes_drawn sv0 (onOrderLineEvent sv0 line_created_event w0))
   \<and> \<not> (lineEventType (line_created_event\<lparr>lineEventType := updated\<rparr>) = created
          \<and> isSubscription sv0 (lineEventCtx (line_created_event\<lparr>lineEventType := updated\<rparr>))
                (orderLine (line_created_event\<lparr>lineEventType := updated\<rparr>)))
   \<and> onOrderLineEvent sv0 (line_created_event\<lparr>lineEventType := updated\<rparr>) w0 = w0"
proof -
  have a: "inj (randomUUID sv0)"
    by (simp add: sv0_def inj_def)
  have b: "\<forall>n. randomUUID sv0 n \<noteq> []"
    by (simp add: sv0_def)
  have c: "hashes_drawn sv0 w0" by code_simp
  have d: "lineEventType line_created_event = created
           \<and> isSubscription sv0 (lineEventCtx line_created_event) (orderLine line_created_event)"
    by code_simp
  have e: "\<not> (lineEventType (line_created_event\<lparr>lineEventType := updated\<rparr>) = created
          \<and> isSubscription sv0 (lineEventCtx (line_created_event\<lparr>lineEventType := updated\<rparr>))
                (orderLine (line_created_event\<lparr>lineEventType := updated\<rparr>)))"
    by simp
  from onOrderLineEvent_correlation_hash [OF a b c, of line_created_event]
       onOrderLineEvent_correlation_hash
         [OF a b c, of "line_created_event\<lparr>lineEventType := updated\<rparr>"]
       a b c d e
  show ?thesis by blast
qed

text \<open>The same event on the concrete world: the first identifier drawn is stored on line 10.\<close>

lemma onOrderLineEvent_w0:
  "map (\<lambda>l. (lineId l, subscriptionHash l))
       (stored_lines (onOrderLineEvent sv0 line_created_event w0))
     = [(''10'', Some ''u''), (''11'', None), (''12'', None)]"
  by code_simp

subsection \<open>The create-subscriptions job\<close>

text \<open>
  The two history entries of a failed creation: the one \<open>createSubscriptions\<close> writes
  in its \<^verbatim>\<open>catch\<close>, with an empty message, and the one the \<^verbatim>\<open>catch\<close> of the queue's
  handler writes after it.
\<close>

lemma process_create_body_throws:
  assumes "findOneByCode w orderCode = Some ord"
    and "subscriptionCreation sv ctx ord cid pmid w = (Inl err, w1)"
  shows "process sv (CreateSubscriptionsJob ctx orderCode cid pmid) w =
           (Inl err,
            w1\<lparr>effects := effects w1 @
              [HistoryEntry \<lparr>entryOrderId = orderId ord, message = [], valid = False,
                             error = Some (Thrown err), entrySubscriptionId = None\<rparr>,
               HistoryEntry \<lparr>entryOrderId = orderId ord,
                             message = ''Failed to create subscription'', valid = False,
                             error = Some (Thrown err), entrySubscriptionId = None\<rparr>]\<rparr>)"
  using assms
  by (simp add: createSubscriptions_def Let_def logHistoryEntry_def emit_def)

lemma process_create_order_not_found:
  assumes "findOneByCode w orderCode = None"
  shows "process sv (CreateSubscriptionsJob ctx orderCode cid pmid) w =
           (Inl (Error (''Cannot find order with code '' @ orderCode)), w)"
  using assms by (simp add: createSubscriptions_def)

lemma process_create_body_returns:
  assumes "findOneByCode w orderCode = Some ord"
    and "subscriptionCreation sv ctx ord cid pmid w = (Inr u, w1)"
  shows "process sv (CreateSubscriptionsJob ctx orderCode cid pmid) w = (Inr u, w1)"
  using assms by (simp add: createSubscriptions_def)

text \<open>
  In the source as it is, the \<^verbatim>\<open>try\<close> block of \<open>createSubscriptions\<close> is empty: the job
  throws exactly when no order has its code, and it never writes a history entry.
\<close>

lemma process_create_empty_body:
  assumes "subscriptionCreation sv = no_subscriptionCreation"
  shows "(\<exists>e. fst (process sv (CreateSubscriptionsJob ctx orderCode cid pmid) w) = Inl e)
           = (findOneByCode w orderCode = None)"
    and "snd (process sv (CreateSubscriptionsJob ctx orderCode cid pmid) w) = w"
  using assms
  by (simp_all add: createSubscriptions_def no_subscriptionCreation_def split: option.splits)

text \<open>
  C8, as the claim states it, fails: when no order has the code of the job, the job
  throws and no history entry is written (there is no order to write it against).
\<close>

theorem process_create_order_not_found_counterexample:
  "process sv0 (CreateSubscriptionsJob ctx0 ''NOPE'' ''cus_1'' ''pm_1'') w0
     = (Inl (Error ''Cannot find order with code NOPE''), w0)
   \<and> \<not> list_ex isHistoryEntry
         (new_effects w0
            (snd (process sv0 (CreateSubscriptionsJob ctx0 ''NOPE'' ''cus_1'' ''pm_1'') w0)))"
  by code_simp

text \<open>
  C8, amended: whenever the body of the \<open>createSubscriptionsForOrder\<close> job throws inside
  the subscription creation, for an order that exists, the job stops there, history
  entries marked invalid and carrying the error are written against that order after
  whatever the body had done (one by \<open>createSubscriptions\<close> with an empty message, then
  one by the queue's handler with the message \<open>Failed to create subscription\<close>), and the
  same error is thrown on to the job queue. Whenever no order has the code of the job,
  the job throws \<open>Cannot find order with code ...\<close> on to the queue and writes no history
  entry: the world is unchanged. These are the failure points of the job: whenever the
  order exists and the subscription creation returns, the job returns what it returned
  and writes no history entry of its own.
\<close>

theorem process_create_failure:
  "(findOneByCode w orderCode = None \<longrightarrow>
      process sv (CreateSubscriptionsJob ctx orderCode cid pmid) w =
        (Inl (Error (''Cannot find order with code '' @ orderCode)), w))
   \<and> (\<forall>ord err w1.
         findOneByCode w orderCode = Some ord
         \<and> subscriptionCreation sv ctx ord cid pmid w = (Inl err, w1) \<longrightarrow>
         process sv (CreateSubscriptionsJob ctx orderCode cid pmid) w =
           (Inl err,
            w1\<lparr>effects := effects w1 @
              [HistoryEntry \<lparr>entryOrderId = orderId ord, message = [], valid = False,
                             error = Some (Thrown err), entrySubscriptionId = None\<rparr>,
               HistoryEntry \<lparr>entryOrderId = orderId ord,
                             message = ''Failed to create subscription'', valid = False,
                             error = Some (Thrown err), entrySubscriptionId = None\<rparr>]\<rparr>))
   \<and> (\<forall>ord u w1.
         findOneByCode w orderCode = Some ord
         \<and> subscriptionCreation sv ctx ord cid pmid w = (Inr u, w1) \<longrightarrow>
         process sv (CreateSubscriptionsJob ctx orderCode cid pmid) w = (Inr u, w1))"
proof (intro conjI allI impI)
  assume "findOneByCode w orderCode = None"
  then show "process sv (CreateSubscriptionsJob ctx orderCode cid pmid) w =
        (Inl (Error (''Cannot find order with code '' @ orderCode)), w)"
    by (rule process_create_order_not_found)
next
  fix ord err w1
  assume "findOneByCode w orderCode = Some ord
            \<and> subscriptionCreation sv ctx ord cid pmid w = (Inl err, w1)"
  then show "process sv (CreateSubscriptionsJob ctx orderCode cid pmid) w =
           (Inl err,
            w1\<lparr>effects := effects w1 @
              [HistoryEntry \<lparr>entryOrderId = orderId ord, message = [], valid = False,
                             error = Some (Thrown err), entrySubscriptionId = None\<rparr>,
               HistoryEntry \<lparr>entryOrderId = orderId ord,
                             message = ''Failed to create subscription'', valid = False,
                             error = Some (Thrown err), entrySubscriptionId = None\<rparr>]\<rparr>)"
    by (elim conjE) (rule process_create_body_throws)
next
  fix ord u w1
  assume "findOneByCode w orderCode = Some ord
            \<and> subscriptionCreation sv ctx ord cid pmid w = (Inr u, w1)"
  then show "process sv (CreateSubscriptionsJob ctx orderCode cid pmid) w = (Inr u, w1)"
    by (elim conjE) (rule process_create_body_returns)
qed

theorem process_create_failure_witness:
  "findOneByCode w0 ''NOPE'' = None
   \<and> process sv0 (CreateSubscriptionsJob ctx0 ''NOPE'' ''cus_1'' ''pm_1'') w0
       = (Inl (Error ''Cannot find order with code NOPE''), w0)
   \<and> findOneByCode w0 ''ORD1'' = Some order0
   \<and> subscriptionCreation sv_failing ctx0 order0 ''cus_1'' ''pm_1'' w0
       = (Inl (Error ''card declined''), w0)
   \<and> process sv_failing (CreateSubscriptionsJob ctx0 ''ORD1'' ''cus_1'' ''pm_1'') w0
       = (Inl (Error ''card declined''), w_failed)
   \<and> subscriptionCreation sv0 ctx0 order0 ''cus_1'' ''pm_1'' w0 = (Inr (), w0)
   \<and> process sv0 (CreateSubscriptionsJob ctx0 ''ORD1'' ''cus_1'' ''pm_1'') w0 = (Inr (), w0)"
proof -
  have a: "findOneByCode w0 ''NOPE'' = None" by code_simp
  have b: "findOneByCode w0 ''ORD1'' = Some order0" by code_simp
  have c: "subscriptionCreation sv_failing ctx0 order0 ''cus_1'' ''pm_1'' w0
             = (Inl (Error ''card declined''), w0)"
    by (simp add: sv_failing_def)
  have d: "subscriptionCreation sv0 ctx0 order0 ''cus_1'' ''pm_1'' w0 = (Inr (), w0)"
    by (simp add: sv0_def no_subscriptionCreation_def)
  have e: "w0\<lparr>effects := effects w0 @
              [HistoryEntry \<lparr>entryOrderId = orderId order0, message = [], valid = False,
                             error = Some (Thrown (Error ''card declined'')),
                             entrySubscriptionId = None\<rparr>,
               HistoryEntry \<lparr>entryOrderId = orderId order0,
                             message = ''Failed to create subscription'', valid = False,
                             error = Some (Thrown (Error ''card declined'')),
                             entrySubscriptionId = None\<rparr>]\<rparr> = w_failed"
    by code_simp
  from process_create_failure [of w0 "''NOPE''" sv0 ctx0 "''cus_1''" "''pm_1''"] a
  have 1: "process sv0 (CreateSubscriptionsJob ctx0 ''NOPE'' ''cus_1'' ''pm_1'') w0
       = (Inl (Error ''Cannot find order with code NOPE''), w0)"
    by simp
  from process_create_failure [of w0 "''ORD1''" sv_failing ctx0 "''cus_1''" "''pm_1''"] b c
  have "process sv_failing (CreateSubscriptionsJob ctx0 ''ORD1'' ''cus_1'' ''pm_1'') w0
       = (Inl (Error ''card declined''),
          w0\<lparr>effects := effects w0 @
              [HistoryEntry \<lparr>entryOrderId = orderId order0, message = [], valid = False,
                             error = Some (Thrown (Error ''card declined'')),
                             entrySubscriptionId = None\<rparr>,
               HistoryEntry \<lparr>entryOrderId = orderId order0,
                             message = ''Failed to create subscription'', valid = False,
                             error = Some (Thrown (Error ''card declined'')),
                             entrySubscriptionId = None\<rparr>]\<rparr>)"
    by blast
  then have 2: "process sv_failing (CreateSubscriptionsJob ctx0 ''ORD1'' ''cus_1'' ''pm_1'') w0
       = (Inl (Error ''card declined''), w_failed)"
    by (simp only: e)
  from process_create_failure [of w0 "''ORD1''" sv0 ctx0 "''cus_1''" "''pm_1''"] b d
  have 3: "process sv0 (CreateSubscriptionsJob ctx0 ''ORD1'' ''cus_1'' ''pm_1'') w0 = (Inr (), w0)"
    by blast
  from a 1 b c 2 d 3 show ?thesis by blast
qed

end
